theory Spec2Isabelle
  imports Main "HOL-Library.Multiset"
begin

section \<open>Go strings\<close>

text \<open>
  A Go string is a sequence of bytes; it is modelled as \<^typ>\<open>string\<close> (a list of
  8-bit characters), and \<open>len\<close> is \<^const>\<open>length\<close>.
\<close>

subsection \<open>UTF-8 decoding\<close>

text \<open>\<^verbatim>\<open>utf8.RuneError\<close>, the replacement character U+FFFD.\<close>

definition utf8_RuneError :: nat where
  "utf8_RuneError = 0xFFFD"

text \<open>
  \<^verbatim>\<open>utf8.DecodeRuneInString(s)\<close> returns the first rune of \<open>s\<close> and its width in
  bytes: \<open>(RuneError, 0)\<close> for the empty string and \<open>(RuneError, 1)\<close> for an invalid
  encoding. The accept ranges of the second byte are those of Go's table: \<open>A0..BF\<close>
  after \<open>E0\<close>, \<open>80..9F\<close> after \<open>ED\<close>, \<open>90..BF\<close> after \<open>F0\<close>, \<open>80..8F\<close> after
  \<open>F4\<close>, \<open>80..BF\<close> otherwise. Masking with \<open>0x1F\<close>, \<open>0x0F\<close>, \<open>0x07\<close>, \<open>0x3F\<close> is
  written \<open>mod 32\<close>, \<open>mod 16\<close>, \<open>mod 8\<close>, \<open>mod 64\<close>.
\<close>

fun utf8_DecodeRuneInString :: "string \<Rightarrow> nat \<times> nat" where
  "utf8_DecodeRuneInString [] = (utf8_RuneError, 0)"
| "utf8_DecodeRuneInString (c # s) =
     (let s0 = (of_char c :: nat) in
      if s0 < 0x80 then (s0, 1)
      else if s0 < 0xC2 \<or> 0xF4 < s0 then (utf8_RuneError, 1)
      else
        let sz = (if s0 < 0xE0 then 2 else if s0 < 0xF0 then 3 else 4 :: nat);
            lo = (if s0 = 0xE0 then 0xA0 else if s0 = 0xF0 then 0x90 else 0x80 :: nat);
            hi = (if s0 = 0xED then 0x9F else if s0 = 0xF4 then 0x8F else 0xBF :: nat)
        in
        if length (c # s) < sz then (utf8_RuneError, 1)
        else
          let s1 = (of_char (s ! 0) :: nat) in
          if s1 < lo \<or> hi < s1 then (utf8_RuneError, 1)
          else if sz \<le> 2 then ((s0 mod 32) * 64 + s1 mod 64, 2)
          else
            let s2 = (of_char (s ! 1) :: nat) in
            if s2 < 0x80 \<or> 0xBF < s2 then (utf8_RuneError, 1)
            else if sz \<le> 3 then ((s0 mod 16) * 4096 + (s1 mod 64) * 64 + s2 mod 64, 3)
            else
              let s3 = (of_char (s ! 2) :: nat) in
              if s3 < 0x80 \<or> 0xBF < s3 then (utf8_RuneError, 1)
              else ((s0 mod 8) * 262144 + (s1 mod 64) * 4096 + (s2 mod 64) * 64
                      + s3 mod 64, 4))"

lemma DecodeRune_size_pos: "s \<noteq> [] \<Longrightarrow> 0 < snd (utf8_DecodeRuneInString s)"
  by (cases s) (simp_all add: Let_def)

lemma DecodeRune_Cons_size_pos: "(r, width) = utf8_DecodeRuneInString (c # s) \<Longrightarrow> 0 < width"
  using DecodeRune_size_pos [of "c # s"] by (cases "utf8_DecodeRuneInString (c # s)") simp

declare utf8_DecodeRuneInString.simps [simp del]

text \<open>\<^verbatim>\<open>utf8.RuneCountInString(s)\<close>: the number of runes in \<open>s\<close>, an invalid byte
  counting as one rune of width 1.\<close>

function utf8_RuneCountInString :: "string \<Rightarrow> nat" where
  "utf8_RuneCountInString s =
     (if s = [] then 0
      else Suc (utf8_RuneCountInString (drop (snd (utf8_DecodeRuneInString s)) s)))"
  by pat_completeness auto
termination
  by (relation "measure length") (use DecodeRune_size_pos in \<open>auto simp: Suc_le_eq\<close>)

declare utf8_RuneCountInString.simps [simp del]

subsection \<open>Package strings\<close>

text \<open>\<^verbatim>\<open>strings.HasPrefix(s, prefix)\<close>:
  \<^verbatim>\<open>len(s) >= len(prefix) && s[:len(prefix)] == prefix\<close>.\<close>

definition strings_HasPrefix :: "string \<Rightarrow> string \<Rightarrow> bool" where
  "strings_HasPrefix s prefix \<longleftrightarrow>
     length s \<ge> length prefix \<and> take (length prefix) s = prefix"

text \<open>\<^verbatim>\<open>strings.Index(s, substr)\<close>: the index of the first instance of
  \<open>substr\<close> in \<open>s\<close>; Go's result \<open>-1\<close> (no instance) is \<open>None\<close>.\<close>

fun strings_Index :: "string \<Rightarrow> string \<Rightarrow> nat option" where
  "strings_Index [] substr = (if substr = [] then Some 0 else None)"
| "strings_Index (c # s) substr =
     (if strings_HasPrefix (c # s) substr then Some 0
      else map_option Suc (strings_Index s substr))"

text \<open>\<^verbatim>\<open>strings.Contains(s, substr)\<close>: \<^verbatim>\<open>Index(s, substr) >= 0\<close>.\<close>

definition strings_Contains :: "string \<Rightarrow> string \<Rightarrow> bool" where
  "strings_Contains s substr \<longleftrightarrow> strings_Index s substr \<noteq> None"

text \<open>
  \<^verbatim>\<open>strings.Count(s, substr)\<close>: the number of non-overlapping instances of
  \<open>substr\<close> in \<open>s\<close>, and \<open>1 +\<close> the number of runes when \<open>substr\<close> is empty. The loop
  \<^verbatim>\<open>for { i := Index(s, substr); if i == -1 { return n }; n++; s = s[i+len(substr):] }\<close>
  is the recursion.
\<close>

lemma Index_Some_nonempty: "strings_Index s substr = Some i \<Longrightarrow> substr \<noteq> [] \<Longrightarrow> s \<noteq> []"
  by (cases s) auto

function strings_Count :: "string \<Rightarrow> string \<Rightarrow> nat" where
  "strings_Count s substr =
     (if substr = [] then utf8_RuneCountInString s + 1
      else case strings_Index s substr of
             None \<Rightarrow> 0
           | Some i \<Rightarrow> Suc (strings_Count (drop (i + length substr) s) substr))"
  by pat_completeness auto
termination
  by (relation "measure (\<lambda>(s, substr). length s)")
     (use Index_Some_nonempty in \<open>auto simp: Suc_le_eq\<close>)

declare strings_Count.simps [simp del]

text \<open>
  \<^verbatim>\<open>explode(s, -1)\<close>: \<open>s\<close> cut into its UTF-8 sequences, one string per rune
  (the result of \<open>Split\<close> with an empty separator).
\<close>

function explode :: "string \<Rightarrow> string list" where
  "explode s =
     (if s = [] then []
      else let width = snd (utf8_DecodeRuneInString s)
           in take width s # explode (drop width s))"
  by pat_completeness auto
termination
  by (relation "measure length") (use DecodeRune_size_pos in \<open>auto simp: Suc_le_eq\<close>)

declare explode.simps [simp del]

text \<open>
  The loop of \<^verbatim>\<open>genSplit(s, sep, 0, n)\<close> for a non-empty separator: at most \<open>n - 1\<close>
  cuts (the first argument), each at the first instance of \<open>sep\<close> in what is left:
  \<^verbatim>\<open>
  for i < n {
      m := Index(s, sep)
      if m < 0 { break }
      a[i] = s[:m+sepSave]
      s = s[m+len(sep):]
      i++
  }
  a[i] = s
  \<close>
\<close>

fun genSplit_loop :: "nat \<Rightarrow> string \<Rightarrow> string \<Rightarrow> string list" where
  "genSplit_loop 0 s sep = [s]"
| "genSplit_loop (Suc k) s sep =
     (case strings_Index s sep of
        None \<Rightarrow> [s]
      | Some m \<Rightarrow> take m s # genSplit_loop k (drop (m + length sep) s) sep)"

text \<open>\<^verbatim>\<open>strings.Split(s, sep)\<close> is \<^verbatim>\<open>genSplit(s, sep, 0, -1)\<close>: with \<open>n < 0\<close>
  the number of pieces is \<^verbatim>\<open>Count(s, sep) + 1\<close>.\<close>

definition strings_Split :: "string \<Rightarrow> string \<Rightarrow> string list" where
  "strings_Split s sep =
     (if sep = [] then explode s
      else genSplit_loop (strings_Count s sep) s sep)"

section \<open>Module calls and version extraction\<close>

text \<open>The fields of \<^verbatim>\<open>tfconfig.ModuleCall\<close> that the program reads.\<close>

record ModuleCall =
  mc_Name :: string
  mc_Source :: string
  mc_Version :: string

text \<open>
  \<^verbatim>\<open>
  func extractVersion(modCall *tfconfig.ModuleCall) string {
      if modCall.Version != "" { return modCall.Version }
      source := modCall.Source
      if strings.Contains(source, "?ref=") {
          parts := strings.Split(source, "?ref=")
          if len(parts) > 1 { return parts[1] }
      }
      if strings.HasPrefix(source, "./") || strings.HasPrefix(source, "../") {
          return "local"
      }
      return "N/A"
  }
  \<close>
  The two nested conditions that lead to \<^verbatim>\<open>return parts[1]\<close> are one conjunction;
  when either fails, control reaches the prefix test.
\<close>

definition extractVersion :: "ModuleCall \<Rightarrow> string" where
  "extractVersion modCall =
     (if mc_Version modCall \<noteq> [] then mc_Version modCall
      else
        let source = mc_Source modCall in
        if strings_Contains source ''?ref=''
           \<and> length (strings_Split source ''?ref='') > 1
        then strings_Split source ''?ref='' ! 1
        else if strings_HasPrefix source ''./'' \<or> strings_HasPrefix source ''../''
        then ''local''
        else ''N/A'')"

section \<open>The SBOM and its construction\<close>

text \<open>
  \<^verbatim>\<open>
  type ModuleInfo struct { Name, Source, Version, Config string }
  type SBOM struct { XMLName xml.Name; Modules []ModuleInfo }
  \<close>
  \<open>XMLName\<close> only names the root element of the XML output and is never assigned; it is
  left out. The slice \<open>Modules\<close> is a list; the empty list is the \<open>nil\<close> slice that
  \<^verbatim>\<open>var sbom SBOM\<close> starts from.
\<close>

record ModuleInfo =
  Name :: string
  Source :: string
  Version :: string
  Config :: string

record SBOM =
  Modules :: "ModuleInfo list"

text \<open>
  The diagnostics of the configuration loader: \<^verbatim>\<open>tfconfig.Diagnostics\<close> is a slice of
  diagnostics, each with a severity, and \<^verbatim>\<open>HasErrors\<close> looks for one of severity
  \<^verbatim>\<open>DiagError\<close>:
  \<^verbatim>\<open>
  for _, diag := range diags { if diag.Severity == DiagError { return true } }
  return false
  \<close>
\<close>

datatype DiagSeverity = DiagError | DiagWarning

record Diagnostic =
  Severity :: DiagSeverity
  Summary :: string
  Detail :: string

type_synonym Diagnostics = "Diagnostic list"

fun HasErrors :: "Diagnostics \<Rightarrow> bool" where
  "HasErrors [] = False"
| "HasErrors (diag # diags) = (if Severity diag = DiagError then True else HasErrors diags)"

text \<open>
  The result of the configuration-inspection collaborator, \<^verbatim>\<open>tfconfig.LoadModule\<close>, a
  library outside the repository. Its field \<^verbatim>\<open>ModuleCalls\<close> is a Go map,
  \<^verbatim>\<open>map[string]*ModuleCall\<close>, from the names of the module calls to the calls. A
  \<^verbatim>\<open>range\<close> loop over a map visits every entry once, in an order that Go leaves open and
  that changes from one loop to the next.
\<close>

type_synonym ModuleCallMap = "string \<Rightarrow> ModuleCall option"

text \<open>\<open>keys\<close> is an order in which a \<^verbatim>\<open>range\<close> loop can visit the map: every key
  once.\<close>

definition range_order :: "ModuleCallMap \<Rightarrow> string list \<Rightarrow> bool" where
  "range_order m keys \<longleftrightarrow> distinct keys \<and> set keys = dom m"

text \<open>The values of the map as the loop meets them when it visits the keys in this
  order.\<close>

definition range_values :: "ModuleCallMap \<Rightarrow> string list \<Rightarrow> ModuleCall list" where
  "range_values m keys = List.map_filter m keys"

text \<open>
  The module as one run of \<open>generateSBOM\<close> sees it: \<open>ModuleCalls\<close> holds the calls of the
  map in the order in which the loop
  \<^verbatim>\<open>for _, modCall := range module.ModuleCalls\<close> of that run visits them, that is
  \<open>range_values m keys\<close> for the map \<open>m\<close> of the loader and the order \<open>keys\<close> of the
  run. The loader is a parameter of \<open>generateSBOM\<close>: a function from the path to the
  module and its diagnostics.
\<close>

record Module =
  ModuleCalls :: "ModuleCall list"

text \<open>
  The errors of the program, for \<^verbatim>\<open>fmt.Errorf("failed to load Terraform module: %v", diag.Err())\<close>
  and for the \<^verbatim>\<open>fmt.Errorf\<close> of the emitters, which carries the message of the failed
  file operation.
\<close>

datatype error = LoadError Diagnostics | IOError string

text \<open>
  The loop of \<open>generateSBOM\<close>:
  \<^verbatim>\<open>
  for _, modCall := range module.ModuleCalls {
      modInfo := ModuleInfo{Name: modCall.Name, Source: modCall.Source, Config: configPath}
      modInfo.Version = extractVersion(modCall)
      sbom.Modules = append(sbom.Modules, modInfo)
  }
  \<close>
\<close>

fun generateSBOM_loop :: "string \<Rightarrow> ModuleCall list \<Rightarrow> SBOM \<Rightarrow> SBOM" where
  "generateSBOM_loop configPath [] sbom = sbom"
| "generateSBOM_loop configPath (modCall # calls) sbom =
     (let modInfo = \<lparr>Name = mc_Name modCall, Source = mc_Source modCall, Version = [],
                      Config = configPath\<rparr>;
          modInfo = modInfo\<lparr>Version := extractVersion modCall\<rparr>
      in generateSBOM_loop configPath calls (sbom\<lparr>Modules := Modules sbom @ [modInfo]\<rparr>))"

text \<open>
  \<^verbatim>\<open>
  func generateSBOM(configPath string) (*SBOM, error) {
      module, diag := tfconfig.LoadModule(configPath)
      if diag.HasErrors() {
          return nil, fmt.Errorf("failed to load Terraform module: %v", diag.Err())
      }
      var sbom SBOM
      for ... { ... }
      return &sbom, nil
  }
  \<close>
  The result \<open>(nil, err)\<close> is \<open>Inl\<close>, the result \<open>(&sbom, nil)\<close> is \<open>Inr\<close>.
\<close>

definition generateSBOM :: "(string \<Rightarrow> Module \<times> Diagnostics) \<Rightarrow> string \<Rightarrow> error + SBOM" where
  "generateSBOM LoadModule configPath =
     (case LoadModule configPath of
        (tfmodule, diag) \<Rightarrow>
          if HasErrors diag then Inl (LoadError diag)
          else Inr (generateSBOM_loop configPath (ModuleCalls tfmodule) \<lparr>Modules = []\<rparr>))"

subsection \<open>An example configuration\<close>

text \<open>
  A loader for the examples: at the path \<open>cfg\<close> it returns three module calls, not in
  alphabetical order, with a warning; at any other path it reports
  an error as well (and still returns the calls it has read).
\<close>

definition example_calls :: "ModuleCall list" where
  "example_calls =
     [\<lparr>mc_Name = ''zeta'', mc_Source = ''./modules/zeta'', mc_Version = ''''\<rparr>,
      \<lparr>mc_Name = ''alpha'', mc_Source = ''hashicorp/aws'', mc_Version = ''1.2.0''\<rparr>,
      \<lparr>mc_Name = ''mid'', mc_Source = ''./modules/mid'', mc_Version = ''''\<rparr>]"

definition example_loader :: "string \<Rightarrow> Module \<times> Diagnostics" where
  "example_loader configPath =
     (if configPath = ''cfg'' then
        (\<lparr>ModuleCalls = example_calls\<rparr>,
         [\<lparr>Severity = DiagWarning, Summary = ''deprecated'', Detail = ''''\<rparr>])
      else
        (\<lparr>ModuleCalls = example_calls\<rparr>,
         [\<lparr>Severity = DiagWarning, Summary = ''deprecated'', Detail = ''''\<rparr>,
          \<lparr>Severity = DiagError, Summary = ''Failed to read module directory'',
            Detail = ''''\<rparr>]))"

definition example_sbom :: SBOM where
  "example_sbom =
     \<lparr>Modules =
        [\<lparr>Name = ''zeta'', Source = ''./modules/zeta'', Version = ''local'', Config = ''cfg''\<rparr>,
         \<lparr>Name = ''alpha'', Source = ''hashicorp/aws'', Version = ''1.2.0'', Config = ''cfg''\<rparr>,
         \<lparr>Name = ''mid'', Source = ''./modules/mid'', Version = ''local'', Config = ''cfg''\<rparr>]\<rparr>"

section \<open>The file system\<close>

text \<open>
  What the emitters see of the file system. At each path there is nothing, a regular file
  with its content, or a directory (\<open>nodes\<close>); paths are compared as strings. Whether a
  path can be opened for writing depends on more than the node at it: the directories on
  the way to it must exist, and the operating system must grant the access. \<open>refusal\<close> is
  the answer of the operating system for each path, the text of the error when it refuses
  (\<open>permission denied\<close>, say) and \<open>None\<close> when it does not. The emitters do not change it.
\<close>

datatype node = File string | Dir

record filesystem =
  nodes :: "string \<Rightarrow> node option"
  refusal :: "string \<Rightarrow> string option"


text \<open>
  The directories on the way to a path: what stands before each of its slashes, as
  \<open>a\<close> and \<open>a/b\<close> for \<open>a/b/c\<close>. Before the slash of an absolute path stands the
  empty string, for the root.
\<close>

fun ancestors :: "string \<Rightarrow> string list" where
  "ancestors [] = []"
| "ancestors (c # s) = (if c = CHR ''/'' then [[]] else []) @ map ((#) c) (ancestors s)"

text \<open>A directory on the way is there when it is the root, the current directory, its
  parent, or a directory of the file system.\<close>

definition is_directory :: "filesystem \<Rightarrow> string \<Rightarrow> bool" where
  "is_directory fs d \<longleftrightarrow> d = [] \<or> d = ''.'' \<or> d = ''..'' \<or> nodes fs d = Some Dir"

text \<open>
  The error of a failed \<^verbatim>\<open>os.OpenFile\<close> for writing, whose text is
  \<^verbatim>\<open>open <name>: <reason>\<close>, or \<open>None\<close> when the path can be opened: not the empty
  path, not a path under a missing directory or under a file, not a directory, and not a
  path at which the operating system refuses.
\<close>

definition open_error :: "filesystem \<Rightarrow> string \<Rightarrow> string option" where
  "open_error fs name =
     (if name = [] then Some (''open '' @ name @ '': no such file or directory'')
      else case find (\<lambda>d. \<not> is_directory fs d) (ancestors name) of
             Some d \<Rightarrow>
               Some (''open '' @ name @
                     (if nodes fs d = None then '': no such file or directory''
                      else '': not a directory''))
           | None \<Rightarrow>
               if nodes fs name = Some Dir \<or> last name = CHR ''/''
               then Some (''open '' @ name @ '': is a directory'')
               else case refusal fs name of
                      Some reason \<Rightarrow> Some (''open '' @ name @ '': '' @ reason)
                    | None \<Rightarrow> None)"


text \<open>
  \<^verbatim>\<open>os.Create(outputPath)\<close>, that is
  \<^verbatim>\<open>OpenFile(name, O_RDWR|O_CREATE|O_TRUNC, 0666)\<close>: the file is created or truncated.
\<close>

definition os_Create :: "filesystem \<Rightarrow> string \<Rightarrow> string + filesystem" where
  "os_Create fs name =
     (case open_error fs name of
        Some err \<Rightarrow> Inl err
      | None \<Rightarrow> Inr (fs\<lparr>nodes := (nodes fs)(name \<mapsto> File [])\<rparr>))"

text \<open>
  Writing to the open file puts the bytes at its end: every write does with
  \<^verbatim>\<open>O_APPEND\<close>, and after \<^verbatim>\<open>O_TRUNC\<close> the file is written from its start onwards.
\<close>

definition file_Write :: "filesystem \<Rightarrow> string \<Rightarrow> string \<Rightarrow> filesystem" where
  "file_Write fs name bytes =
     (case nodes fs name of
        Some (File content) \<Rightarrow> fs\<lparr>nodes := (nodes fs)(name \<mapsto> File (content @ bytes))\<rparr>
      | _ \<Rightarrow> fs)"

text \<open>
  Two file systems for the examples: one with no node, and one with a directory in which
  the operating system does not let files be written.
\<close>

definition fs_empty :: filesystem where
  "fs_empty = \<lparr>nodes = Map.empty, refusal = Map.empty\<rparr>"


section \<open>The CSV emitter\<close>








text \<open>The SBOM of the tests (\<^verbatim>\<open>mockSBOM\<close> in \<^verbatim>\<open>main_test.go\<close>).\<close>

definition mockSBOM :: SBOM where
  "mockSBOM =
     \<lparr>Modules =
        [\<lparr>Name = ''aws_vpc'',
          Source = ''git::https://github.com/terraform-aws-modules/vpc.git?ref=v2.0.0'',
          Version = ''v2.0.0'', Config = ''/path/to/config''\<rparr>,
         \<lparr>Name = ''s3_bucket'', Source = ''hashicorp/aws'', Version = ''N/A'',
          Config = ''/path/to/config''\<rparr>]\<rparr>"

subsection \<open>Two runs on one module\<close>

text \<open>
  One run of \<open>generateSBOM\<close> on a module whose calls are the map \<open>m\<close>: the loader
  returns the map with the diagnostics \<open>diag\<close>, and the loop of this run visits the keys in
  the order \<open>keys\<close>.
\<close>

definition run_loader ::
  "ModuleCallMap \<Rightarrow> Diagnostics \<Rightarrow> string list \<Rightarrow> string \<Rightarrow> Module \<times> Diagnostics" where
  "run_loader m diag keys configPath = (\<lparr>ModuleCalls = range_values m keys\<rparr>, diag)"

text \<open>
  The module calls of the test SBOM as the loader holds them, and the SBOM with its two
  records the other way round.
\<close>

definition mock_calls :: ModuleCallMap where
  "mock_calls =
     [''aws_vpc'' \<mapsto>
        \<lparr>mc_Name = ''aws_vpc'',
         mc_Source = ''git::https://github.com/terraform-aws-modules/vpc.git?ref=v2.0.0'',
         mc_Version = ''''\<rparr>,
      ''s3_bucket'' \<mapsto>
        \<lparr>mc_Name = ''s3_bucket'', mc_Source = ''hashicorp/aws'', mc_Version = ''''\<rparr>]"

definition mockSBOM_reversed :: SBOM where
  "mockSBOM_reversed =
     \<lparr>Modules =
        [\<lparr>Name = ''s3_bucket'', Source = ''hashicorp/aws'', Version = ''N/A'',
          Config = ''/path/to/config''\<rparr>,
         \<lparr>Name = ''aws_vpc'',
          Source = ''git::https://github.com/terraform-aws-modules/vpc.git?ref=v2.0.0'',
          Version = ''v2.0.0'', Config = ''/path/to/config''\<rparr>]\<rparr>"

section \<open>The JSON emitter\<close>

subsection \<open>Strings\<close>

text \<open>The digits of \<^verbatim>\<open>const hex = "0123456789abcdef"\<close>.\<close>

definition hex :: "nat \<Rightarrow> char" where
  "hex n = ''0123456789abcdef'' ! (n mod 16)"

text \<open>
  \<^verbatim>\<open>htmlSafeSet\<close>: the ASCII bytes that \<^verbatim>\<open>encoding/json\<close> writes as they are when it
  escapes for HTML (the default of an encoder): from the space on, but for the quote, the
  backslash and \<^verbatim>\<open>&\<close>, \<^verbatim>\<open><\<close>, \<^verbatim>\<open>>\<close>.
\<close>

definition htmlSafeSet :: "nat \<Rightarrow> bool" where
  "htmlSafeSet b \<longleftrightarrow>
     0x20 \<le> b \<and> b < 0x80 \<and> b \<noteq> 0x22 \<and> b \<noteq> 0x26 \<and> b \<noteq> 0x3C \<and> b \<noteq> 0x3E \<and> b \<noteq> 0x5C"

text \<open>
  The escape of an ASCII byte outside that set, the \<^verbatim>\<open>switch b\<close> of
  \<^verbatim>\<open>appendString\<close>: a backslash before the backslash and the quote, the short escapes of
  backspace, form feed, line feed, carriage return and tab, and \<^verbatim>\<open>\u00XX\<close> otherwise.
\<close>

definition json_escape_byte :: "char \<Rightarrow> string" where
  "json_escape_byte c =
     (let b = (of_char c :: nat) in
      if b = 0x5C \<or> b = 0x22 then [CHR 0x5C, c]
      else if b = 0x08 then [CHR 0x5C, CHR ''b'']
      else if b = 0x0C then [CHR 0x5C, CHR ''f'']
      else if b = 0x0A then [CHR 0x5C, CHR ''n'']
      else if b = 0x0D then [CHR 0x5C, CHR ''r'']
      else if b = 0x09 then [CHR 0x5C, CHR ''t'']
      else [CHR 0x5C, CHR ''u'', CHR ''0'', CHR ''0'', hex (b div 16), hex b])"

text \<open>
  The loop of \<^verbatim>\<open>appendString(dst, src, escapeHTML = true)\<close> over the bytes of the string:
  a safe ASCII byte is copied, another ASCII byte escaped; beyond ASCII the rune is
  decoded from at most four bytes, an invalid byte becomes the escape \<open>ufffd\<close> of the
  replacement character, the line and paragraph separators U+2028 and U+2029 become their
  escapes \<open>u2028\<close> and \<open>u2029\<close>, and any other rune is copied.
\<close>

function json_appendString_loop :: "string \<Rightarrow> string" where
  "json_appendString_loop src =
     (case src of
        [] \<Rightarrow> []
      | c # rest \<Rightarrow>
          if (of_char c :: nat) < 0x80
          then (if htmlSafeSet (of_char c) then [c] else json_escape_byte c)
               @ json_appendString_loop rest
          else
            case utf8_DecodeRuneInString (take 4 src) of
              (r, width) \<Rightarrow>
                if r = utf8_RuneError \<and> width = 1
                then (CHR 0x5C # ''ufffd'') @ json_appendString_loop (drop width src)
                else if r = 0x2028 \<or> r = 0x2029
                then (CHR 0x5C # ''u202'') @ [hex r] @ json_appendString_loop (drop width src)
                else take width src @ json_appendString_loop (drop width src))"
  by pat_completeness auto
termination
  by (relation "measure length") (auto dest: DecodeRune_Cons_size_pos)

declare json_appendString_loop.simps [simp del]

definition json_appendString :: "string \<Rightarrow> string" where
  "json_appendString src = [CHR 0x22] @ json_appendString_loop src @ [CHR 0x22]"

subsection \<open>Marshalling\<close>

text \<open>
  The compact encoding of the two structs, by their tags
  \<^verbatim>\<open>json:"name"\<close>, \<^verbatim>\<open>json:"source"\<close>, \<^verbatim>\<open>json:"version"\<close>, \<^verbatim>\<open>json:"config"\<close> and
  \<^verbatim>\<open>json:"modules"\<close> (\<open>XMLName\<close> has the tag \<^verbatim>\<open>json:"-"\<close> and is skipped): an object with
  the fields in the order of their declaration.
\<close>

definition json_key :: "string \<Rightarrow> string" where
  "json_key name = [CHR 0x22] @ name @ [CHR 0x22, CHR '':'']"

definition json_marshal_ModuleInfo :: "ModuleInfo \<Rightarrow> string" where
  "json_marshal_ModuleInfo m =
     ''{'' @ json_key ''name'' @ json_appendString (Name m)
     @ '','' @ json_key ''source'' @ json_appendString (Source m)
     @ '','' @ json_key ''version'' @ json_appendString (Version m)
     @ '','' @ json_key ''config'' @ json_appendString (Config m)
     @ ''}''"

text \<open>The elements of an array, \<open>i\<close> being the index: a comma before every element but
  the first.\<close>

fun json_marshal_elems :: "nat \<Rightarrow> ModuleInfo list \<Rightarrow> string" where
  "json_marshal_elems i [] = []"
| "json_marshal_elems i (m # ms) =
     (if i > 0 then '','' else []) @ json_marshal_ModuleInfo m @ json_marshal_elems (Suc i) ms"

text \<open>A \<open>nil\<close> slice is encoded as \<^verbatim>\<open>null\<close>; the empty list is the \<open>nil\<close> slice.\<close>

definition json_marshal_SBOM :: "SBOM \<Rightarrow> string" where
  "json_marshal_SBOM sbom =
     ''{'' @ json_key ''modules''
     @ (if Modules sbom = [] then ''null''
        else ''['' @ json_marshal_elems 0 (Modules sbom) @ '']'')
     @ ''}''"

subsection \<open>Indentation\<close>

text \<open>
  \<^verbatim>\<open>appendIndent(dst, src, prefix = "", indent = "  ")\<close> on a valid JSON text. Its state is
  the output, the depth, the flag \<open>needIndent\<close> (a bracket has been opened and the line
  break after it is still owed, so that an empty object or array stays on one line), and of
  the scanner what decides the treatment of a byte: whether it lies inside a string
  literal, whether the byte before it was the backslash of an escape, and whether the
  top-level value has started.
\<close>

record indent_state =
  out :: string
  depth :: nat
  needIndent :: bool
  inString :: bool
  escaped :: bool
  started :: bool

text \<open>\<^verbatim>\<open>appendNewline(dst, prefix, indent, depth)\<close>.\<close>

definition appendNewline :: "string \<Rightarrow> nat \<Rightarrow> string" where
  "appendNewline dst d = dst @ [CHR 0x0A] @ concat (replicate d ''  '')"

text \<open>
  One byte. Inside a string literal it is copied. A space outside a literal is skipped,
  but after the end of the top-level value, where it is copied. Any other byte first pays
  the owed line break, unless it closes the bracket, and is then written with the spacing
  of its kind.
\<close>

definition json_Indent_step :: "indent_state \<Rightarrow> char \<Rightarrow> indent_state" where
  "json_Indent_step s c =
     (if inString s then
        s\<lparr>out := out s @ [c],
          escaped := (\<not> escaped s \<and> c = CHR 0x5C),
          inString := (escaped s \<or> c \<noteq> CHR 0x22)\<rparr>
      else if c = CHR '' '' \<or> c = CHR 0x09 \<or> c = CHR 0x0D \<or> c = CHR 0x0A then
        (if started s \<and> depth s = 0 \<and> \<not> needIndent s then s\<lparr>out := out s @ [c]\<rparr> else s)
      else
        let s = s\<lparr>started := True\<rparr>;
            s = (if needIndent s \<and> c \<noteq> CHR ''}'' \<and> c \<noteq> CHR '']''
                 then s\<lparr>needIndent := False, depth := depth s + 1,
                        out := appendNewline (out s) (depth s + 1)\<rparr>
                 else s)
        in
        if c = CHR ''{'' \<or> c = CHR ''['' then s\<lparr>needIndent := True, out := out s @ [c]\<rparr>
        else if c = CHR '','' then s\<lparr>out := appendNewline (out s @ [c]) (depth s)\<rparr>
        else if c = CHR '':'' then s\<lparr>out := out s @ [c, CHR '' '']\<rparr>
        else if c = CHR ''}'' \<or> c = CHR '']'' then
          (if needIndent s then s\<lparr>needIndent := False, out := out s @ [c]\<rparr>
           else s\<lparr>depth := depth s - 1, out := appendNewline (out s) (depth s - 1) @ [c]\<rparr>)
        else if c = CHR 0x22 then s\<lparr>inString := True, out := out s @ [c]\<rparr>
        else s\<lparr>out := out s @ [c]\<rparr>)"

definition json_Indent :: "string \<Rightarrow> string" where
  "json_Indent src =
     out (foldl json_Indent_step
            \<lparr>out = [], depth = 0, needIndent = False, inString = False, escaped = False,
             started = False\<rparr> src)"

text \<open>
  \<^verbatim>\<open>json.Encoder.Encode(sbom)\<close> after \<^verbatim>\<open>SetIndent("", "  ")\<close>: the compact encoding, a
  line feed after the value, and the indentation of the whole.
\<close>

definition json_Encode :: "SBOM \<Rightarrow> string" where
  "json_Encode sbom = json_Indent (json_marshal_SBOM sbom @ [CHR 0x0A])"

text \<open>
  \<^verbatim>\<open>
  func writeSBOMToJSON(sbom *SBOM, outputPath string) error {
      file, err := os.Create(outputPath)
      if err != nil { return fmt.Errorf("failed to create JSON file: %v", err) }
      defer file.Close()
      encoder := json.NewEncoder(file)
      encoder.SetIndent("", "  ")
      err = encoder.Encode(sbom)
      if err != nil { return fmt.Errorf("failed to write JSON file: %v", err) }
      return nil
  }
  \<close>
  Encoding a struct of strings does not fail, so only the failure of \<open>os.Create\<close> has a
  branch.
\<close>

definition writeSBOMToJSON :: "SBOM \<Rightarrow> string \<Rightarrow> filesystem \<Rightarrow> error + filesystem" where
  "writeSBOMToJSON sbom outputPath fs =
     (case os_Create fs outputPath of
        Inl err \<Rightarrow> Inl (IOError (''failed to create JSON file: '' @ err))
      | Inr fs' \<Rightarrow> Inr (file_Write fs' outputPath (json_Encode sbom)))"

section \<open>The XML emitter\<close>















section \<open>Reading the JSON back\<close>

text \<open>
  The test \<^verbatim>\<open>TestWriteSBOMToJSON\<close> reads the file back with
  \<^verbatim>\<open>json.Unmarshal(content, &result)\<close>. It first checks that the text is one JSON value
  (else a syntax error, and \<open>result\<close> is untouched) and then stores the value into the
  struct. The model has the two steps: the text is parsed into a value of the type \<open>json\<close>
  by the grammar of the scanner, and the value is stored into the SBOM.
\<close>

subsection \<open>The grammar of the scanner\<close>

datatype json =
  JNull
  | JBool bool
  | JNumber string
  | JString string
  | JArray "json list"
  | JObject "(string \<times> json) list"

text \<open>\<^verbatim>\<open>isSpace\<close> of the scanner: space, tab, carriage return, line feed.\<close>

definition isSpace :: "char \<Rightarrow> bool" where
  "isSpace c \<longleftrightarrow> c = CHR '' '' \<or> c = CHR 0x09 \<or> c = CHR 0x0D \<or> c = CHR 0x0A"

fun skipSpace :: "string \<Rightarrow> string" where
  "skipSpace [] = []"
| "skipSpace (c # s) = (if isSpace c then skipSpace s else c # s)"

definition isDigit :: "char \<Rightarrow> bool" where
  "isDigit c \<longleftrightarrow> 0x30 \<le> (of_char c :: nat) \<and> (of_char c :: nat) \<le> 0x39"

definition isHexDigit :: "char \<Rightarrow> bool" where
  "isHexDigit c \<longleftrightarrow>
     isDigit c \<or> (0x61 \<le> (of_char c :: nat) \<and> (of_char c :: nat) \<le> 0x66)
     \<or> (0x41 \<le> (of_char c :: nat) \<and> (of_char c :: nat) \<le> 0x46)"

text \<open>
  A string literal after its opening quote (the states \<^verbatim>\<open>stateInString\<close>,
  \<^verbatim>\<open>stateInStringEsc\<close> and \<^verbatim>\<open>stateInStringEscU\<close> to \<^verbatim>\<open>stateInStringEscU123\<close>): the
  bytes up to the closing quote and the text after it. A byte below the space is an
  error, as is a backslash that is not followed by one of
  \<^verbatim>\<open>b f n r t \ / "\<close> or by \<open>u\<close> and four hexadecimal digits.
\<close>

fun scanString :: "string \<Rightarrow> (string \<times> string) option" where
  "scanString [] = None"
| "scanString (c # s) =
     (if c = CHR 0x22 then Some ([], s)
      else if c = CHR 0x5C then
        (case s of
           [] \<Rightarrow> None
         | e # s' \<Rightarrow>
             if e \<in> set (''bfnrt/'' @ [CHR 0x5C, CHR 0x22])
             then map_option (apfst (\<lambda>lit. c # e # lit)) (scanString s')
             else if e = CHR ''u'' \<and> length s' \<ge> 4 \<and> list_all isHexDigit (take 4 s')
             then map_option (apfst (\<lambda>lit. c # e # take 4 s' @ lit)) (scanString (drop 4 s'))
             else None)
      else if (of_char c :: nat) < 0x20 then None
      else map_option (apfst (\<lambda>lit. c # lit)) (scanString s))"

text \<open>
  A number (the states \<^verbatim>\<open>stateNeg\<close>, \<^verbatim>\<open>state0\<close>, \<^verbatim>\<open>state1\<close>, \<^verbatim>\<open>stateDot\<close>,
  \<^verbatim>\<open>stateDot0\<close>, \<^verbatim>\<open>stateE\<close>, \<^verbatim>\<open>stateESign\<close>, \<^verbatim>\<open>stateE0\<close>): an optional minus, a zero
  or a run of digits that starts with a digit from 1 to 9, an optional fraction with at
  least one digit, an optional exponent with at least one digit.
\<close>

definition scanExponent :: "string \<Rightarrow> string \<Rightarrow> (string \<times> string) option" where
  "scanExponent lit s =
     (case s of
        [] \<Rightarrow> Some (lit, s)
      | e # s' \<Rightarrow>
          if e = CHR ''e'' \<or> e = CHR ''E'' then
            (let sign = (case s' of
                           [] \<Rightarrow> []
                         | x # _ \<Rightarrow> if x = CHR ''+'' \<or> x = CHR ''-'' then [x] else []);
                 s'' = drop (length sign) s';
                 digits = takeWhile isDigit s''
             in if digits = [] then None
                else Some (lit @ [e] @ sign @ digits, dropWhile isDigit s''))
          else Some (lit, s))"

definition scanFraction :: "string \<Rightarrow> string \<Rightarrow> (string \<times> string) option" where
  "scanFraction lit s =
     (case s of
        [] \<Rightarrow> Some (lit, s)
      | d # s' \<Rightarrow>
          if d = CHR ''.'' then
            (let digits = takeWhile isDigit s'
             in if digits = [] then None
                else scanExponent (lit @ [d] @ digits) (dropWhile isDigit s'))
          else scanExponent lit s)"

definition scanNumber :: "string \<Rightarrow> (string \<times> string) option" where
  "scanNumber s =
     (let sign = (case s of [] \<Rightarrow> [] | x # _ \<Rightarrow> if x = CHR ''-'' then [x] else []);
          s' = drop (length sign) s
      in case s' of
           [] \<Rightarrow> None
         | d # s'' \<Rightarrow>
             if d = CHR ''0'' then scanFraction (sign @ [d]) s''
             else if isDigit d
             then scanFraction (sign @ [d] @ takeWhile isDigit s'') (dropWhile isDigit s'')
             else None)"

text \<open>
  The escapes of a scanned literal, \<^verbatim>\<open>unquoteBytes\<close>. \<^verbatim>\<open>getu4\<close> reads \<open>\uXXXX\<close>;
  a surrogate followed by the escape of its second half is one rune, a lone surrogate
  the replacement character; bytes that are not UTF-8 are coerced to it.
\<close>

definition hexValue :: "char \<Rightarrow> nat" where
  "hexValue c =
     (let b = (of_char c :: nat) in
      if isDigit c then b - 0x30
      else if 0x61 \<le> b \<and> b \<le> 0x66 then b - 0x61 + 10
      else b - 0x41 + 10)"

definition getu4 :: "string \<Rightarrow> nat option" where
  "getu4 s =
     (if length s < 6 \<or> s ! 0 \<noteq> CHR 0x5C \<or> s ! 1 \<noteq> CHR ''u''
         \<or> \<not> list_all isHexDigit (take 4 (drop 2 s))
      then None
      else Some (foldl (\<lambda>r c. r * 16 + hexValue c) 0 (take 4 (drop 2 s))))"

definition utf16_IsSurrogate :: "nat \<Rightarrow> bool" where
  "utf16_IsSurrogate r \<longleftrightarrow> 0xD800 \<le> r \<and> r < 0xE000"

definition utf16_DecodeRune :: "nat \<Rightarrow> nat option \<Rightarrow> nat" where
  "utf16_DecodeRune r1 r2 =
     (case r2 of
        None \<Rightarrow> 0xFFFD
      | Some r2 \<Rightarrow>
          if 0xD800 \<le> r1 \<and> r1 < 0xDC00 \<and> 0xDC00 \<le> r2 \<and> r2 < 0xE000
          then (r1 - 0xD800) * 1024 + (r2 - 0xDC00) + 0x10000
          else 0xFFFD)"

text \<open>\<^verbatim>\<open>utf8.AppendRune\<close>: the UTF-8 encoding of a rune, that of U+FFFD for a surrogate
  or a value beyond U+10FFFF.\<close>

definition utf8_AppendRune :: "nat \<Rightarrow> string" where
  "utf8_AppendRune r =
     (if r \<le> 0x7F then [char_of r]
      else if r \<le> 0x7FF then [char_of (0xC0 + r div 64), char_of (0x80 + r mod 64)]
      else if r > 0x10FFFF \<or> (0xD800 \<le> r \<and> r \<le> 0xDFFF) then [CHR 0xEF, CHR 0xBF, CHR 0xBD]
      else if r \<le> 0xFFFF
      then [char_of (0xE0 + r div 4096), char_of (0x80 + (r div 64) mod 64),
            char_of (0x80 + r mod 64)]
      else [char_of (0xF0 + r div 262144), char_of (0x80 + (r div 4096) mod 64),
            char_of (0x80 + (r div 64) mod 64), char_of (0x80 + r mod 64)])"

function unquote :: "string \<Rightarrow> string option" where
  "unquote s =
     (case s of
        [] \<Rightarrow> Some []
      | c # rest \<Rightarrow>
          if c = CHR 0x5C then
            (case rest of
               [] \<Rightarrow> None
             | e # rest' \<Rightarrow>
                 if e = CHR 0x22 \<or> e = CHR 0x5C \<or> e = CHR ''/'' \<or> e = CHR 0x27
                 then map_option ((#) e) (unquote rest')
                 else if e = CHR ''b'' then map_option ((#) (CHR 0x08)) (unquote rest')
                 else if e = CHR ''f'' then map_option ((#) (CHR 0x0C)) (unquote rest')
                 else if e = CHR ''n'' then map_option ((#) (CHR 0x0A)) (unquote rest')
                 else if e = CHR ''r'' then map_option ((#) (CHR 0x0D)) (unquote rest')
                 else if e = CHR ''t'' then map_option ((#) (CHR 0x09)) (unquote rest')
                 else if e = CHR ''u'' then
                   (case getu4 s of
                      None \<Rightarrow> None
                    | Some rr \<Rightarrow>
                        if utf16_IsSurrogate rr
                           \<and> utf16_DecodeRune rr (getu4 (drop 6 s)) \<noteq> 0xFFFD
                        then map_option
                               ((@) (utf8_AppendRune (utf16_DecodeRune rr (getu4 (drop 6 s)))))
                               (unquote (drop 6 (drop 6 s)))
                        else map_option
                               ((@) (utf8_AppendRune (if utf16_IsSurrogate rr then 0xFFFD else rr)))
                               (unquote (drop 6 s)))
                 else None)
          else if c = CHR 0x22 \<or> (of_char c :: nat) < 0x20 then None
          else if (of_char c :: nat) < 0x80 then map_option ((#) c) (unquote rest)
          else
            case utf8_DecodeRuneInString s of
              (rr, width) \<Rightarrow> map_option ((@) (utf8_AppendRune rr)) (unquote (drop width s)))"
  by pat_completeness auto
termination
  by (relation "measure length") (auto dest: DecodeRune_Cons_size_pos)

declare unquote.simps [simp del]

text \<open>
  A value, the elements of an array after the first, and the members of an object, by
  recursive descent. The first argument bounds the nesting of the calls, so that the
  recursion is structural; \<open>json_parse\<close> gives it twice the length of the text and one
  more, and a call reads at least one byte before the next nested call. The second
  argument is the depth of the open arrays and objects, which the scanner limits to
  \<^verbatim>\<open>maxNestingDepth = 10000\<close>. The result is the value and the text after it, \<open>None\<close>
  for a syntax error.
\<close>

fun parseValue :: "nat \<Rightarrow> nat \<Rightarrow> string \<Rightarrow> (json \<times> string) option"
  and parseElements :: "nat \<Rightarrow> nat \<Rightarrow> json list \<Rightarrow> string \<Rightarrow> (json \<times> string) option"
  and parseMembers :: "nat \<Rightarrow> nat \<Rightarrow> (string \<times> json) list \<Rightarrow> string \<Rightarrow> (json \<times> string) option"
where
  "parseValue 0 d s = None"
| "parseValue (Suc n) d s =
     (case skipSpace s of
        [] \<Rightarrow> None
      | c # r \<Rightarrow>
          if c = CHR ''{'' then
            (if d + 1 > 10000 then None
             else case skipSpace r of
                    [] \<Rightarrow> None
                  | c' # r' \<Rightarrow> if c' = CHR ''}'' then Some (JObject [], r')
                               else parseMembers n (d + 1) [] r)
          else if c = CHR ''['' then
            (if d + 1 > 10000 then None
             else case skipSpace r of
                    [] \<Rightarrow> None
                  | c' # r' \<Rightarrow> if c' = CHR '']'' then Some (JArray [], r')
                               else parseElements n (d + 1) [] r)
          else if c = CHR 0x22 then
            (case scanString r of
               None \<Rightarrow> None
             | Some (lit, r') \<Rightarrow> map_option (\<lambda>str. (JString str, r')) (unquote lit))
          else if c = CHR ''t'' then
            (if take 3 r = ''rue'' then Some (JBool True, drop 3 r) else None)
          else if c = CHR ''f'' then
            (if take 4 r = ''alse'' then Some (JBool False, drop 4 r) else None)
          else if c = CHR ''n'' then
            (if take 3 r = ''ull'' then Some (JNull, drop 3 r) else None)
          else if c = CHR ''-'' \<or> isDigit c then
            map_option (apfst JNumber) (scanNumber (c # r))
          else None)"
| "parseElements 0 d elems s = None"
| "parseElements (Suc n) d elems s =
     (case parseValue n d s of
        None \<Rightarrow> None
      | Some (v, r) \<Rightarrow>
          (case skipSpace r of
             [] \<Rightarrow> None
           | c # r' \<Rightarrow>
               if c = CHR '','' then parseElements n d (elems @ [v]) r'
               else if c = CHR '']'' then Some (JArray (elems @ [v]), r')
               else None))"
| "parseMembers 0 d members s = None"
| "parseMembers (Suc n) d members s =
     (case skipSpace s of
        [] \<Rightarrow> None
      | q # r \<Rightarrow>
          if q \<noteq> CHR 0x22 then None
          else
            case scanString r of
              None \<Rightarrow> None
            | Some (lit, r1) \<Rightarrow>
                (case unquote lit of
                   None \<Rightarrow> None
                 | Some key \<Rightarrow>
                     (case skipSpace r1 of
                        [] \<Rightarrow> None
                      | colon # r2 \<Rightarrow>
                          if colon \<noteq> CHR '':'' then None
                          else
                            case parseValue n d r2 of
                              None \<Rightarrow> None
                            | Some (v, r3) \<Rightarrow>
                                (case skipSpace r3 of
                                   [] \<Rightarrow> None
                                 | c # r4 \<Rightarrow>
                                     if c = CHR '','' then parseMembers n d (members @ [(key, v)]) r4
                                     else if c = CHR ''}''
                                     then Some (JObject (members @ [(key, v)]), r4)
                                     else None))))"

text \<open>\<^verbatim>\<open>checkValid\<close>: the whole text is one value, with spaces around it at most.\<close>

definition json_parse :: "string \<Rightarrow> json option" where
  "json_parse data =
     (case parseValue (2 * length data + 1) 0 data of
        None \<Rightarrow> None
      | Some (v, r) \<Rightarrow> if skipSpace r = [] then Some v else None)"

subsection \<open>Storing the value into the structs\<close>

text \<open>
  The errors of \<open>Unmarshal\<close>: a syntax error, or the first value that does not fit the
  type of its field (the JSON kind of the value and the Go type), after which decoding
  goes on.
\<close>

datatype json_error = SyntaxError | UnmarshalTypeError string string

definition saveError :: "json_error \<Rightarrow> json_error option \<Rightarrow> json_error option" where
  "saveError e saved = (case saved of None \<Rightarrow> Some e | Some e' \<Rightarrow> Some e')"

definition json_kind :: "json \<Rightarrow> string" where
  "json_kind v =
     (case v of
        JNull \<Rightarrow> ''null''
      | JBool b \<Rightarrow> ''bool''
      | JNumber n \<Rightarrow> ''number''
      | JString s \<Rightarrow> ''string''
      | JArray vs \<Rightarrow> ''array''
      | JObject ms \<Rightarrow> ''object'')"

text \<open>
  A key names a field when the two are equal or equal under case folding. The names of the
  fields are ASCII letters, and up to case the only runes that fold to ASCII letters are
  the long s U+017F (to \<open>s\<close>) and the Kelvin sign U+212A (to \<open>k\<close>); \<open>toUpper\<close> is the
  folding of an ASCII byte.
\<close>

definition toUpper :: "char \<Rightarrow> char" where
  "toUpper c =
     (if 0x61 \<le> (of_char c :: nat) \<and> (of_char c :: nat) \<le> 0x7A
      then char_of ((of_char c :: nat) - 0x20) else c)"

fun equalFold :: "string \<Rightarrow> string \<Rightarrow> bool" where
  "equalFold [] key = (key = [])"
| "equalFold (n # name) key =
     (case key of
        [] \<Rightarrow> False
      | c # rest \<Rightarrow>
          if (of_char c :: nat) < 0x80 then toUpper c = toUpper n \<and> equalFold name rest
          else if take 2 key = [CHR 0xC5, CHR 0xBF]
          then toUpper n = CHR ''S'' \<and> equalFold name (drop 2 key)
          else if take 3 key = [CHR 0xE2, CHR 0x84, CHR 0xAA]
          then toUpper n = CHR ''K'' \<and> equalFold name (drop 3 key)
          else False)"

text \<open>A JSON value into a field of type string: a string is stored, \<^verbatim>\<open>null\<close> leaves
  the field as it is, anything else is a type error.\<close>

definition store_string :: "json \<Rightarrow> string \<Rightarrow> json_error option \<Rightarrow> string \<times> json_error option" where
  "store_string v field saved =
     (case v of
        JString s \<Rightarrow> (s, saved)
      | JNull \<Rightarrow> (field, saved)
      | _ \<Rightarrow> (field, saveError (UnmarshalTypeError (json_kind v) ''string'') saved))"

text \<open>The members of an object into a \<open>ModuleInfo\<close>, in their order; a key that names no
  field is skipped.\<close>

fun store_ModuleInfo_members ::
  "(string \<times> json) list \<Rightarrow> ModuleInfo \<Rightarrow> json_error option \<Rightarrow> ModuleInfo \<times> json_error option"
where
  "store_ModuleInfo_members [] m saved = (m, saved)"
| "store_ModuleInfo_members ((key, v) # members) m saved =
     (if equalFold ''name'' key then
        (case store_string v (Name m) saved of
           (s, saved') \<Rightarrow> store_ModuleInfo_members members (m\<lparr>Name := s\<rparr>) saved')
      else if equalFold ''source'' key then
        (case store_string v (Source m) saved of
           (s, saved') \<Rightarrow> store_ModuleInfo_members members (m\<lparr>Source := s\<rparr>) saved')
      else if equalFold ''version'' key then
        (case store_string v (Version m) saved of
           (s, saved') \<Rightarrow> store_ModuleInfo_members members (m\<lparr>Version := s\<rparr>) saved')
      else if equalFold ''config'' key then
        (case store_string v (Config m) saved of
           (s, saved') \<Rightarrow> store_ModuleInfo_members members (m\<lparr>Config := s\<rparr>) saved')
      else store_ModuleInfo_members members m saved)"

definition store_ModuleInfo ::
  "json \<Rightarrow> ModuleInfo \<Rightarrow> json_error option \<Rightarrow> ModuleInfo \<times> json_error option" where
  "store_ModuleInfo v m saved =
     (case v of
        JObject members \<Rightarrow> store_ModuleInfo_members members m saved
      | JNull \<Rightarrow> (m, saved)
      | _ \<Rightarrow> (m, saveError (UnmarshalTypeError (json_kind v) ''main.ModuleInfo'') saved))"

text \<open>
  The elements of an array into the slice. The element at index \<open>i\<close> is decoded into
  what the backing array of the slice holds at \<open>i\<close> (the zero struct beyond what has been
  written), so a field that the object does not name keeps what an earlier array of the
  same text left there.
\<close>

fun store_elements ::
  "json list \<Rightarrow> nat \<Rightarrow> ModuleInfo list \<Rightarrow> json_error option \<Rightarrow> ModuleInfo list \<times> json_error option"
where
  "store_elements [] i backing saved = (backing, saved)"
| "store_elements (v # vs) i backing saved =
     (let old = (if i < length backing then backing ! i
                 else \<lparr>Name = [], Source = [], Version = [], Config = []\<rparr>)
      in case store_ModuleInfo v old saved of
           (m, saved') \<Rightarrow>
             store_elements vs (Suc i)
               (if i < length backing then backing[i := m] else backing @ [m]) saved')"

text \<open>
  The state of the decoder for an SBOM: the struct, the backing array of its slice, and
  the saved error. An array sets the slice to its elements (an empty array to a new empty
  slice), \<^verbatim>\<open>null\<close> to \<open>nil\<close>; a key that is not \<open>modules\<close> (as \<open>XMLName\<close>, with its
  tag \<^verbatim>\<open>json:"-"\<close>) is skipped.
\<close>

fun store_SBOM_members ::
  "(string \<times> json) list \<Rightarrow> SBOM \<times> ModuleInfo list \<times> json_error option
     \<Rightarrow> SBOM \<times> ModuleInfo list \<times> json_error option"
where
  "store_SBOM_members [] st = st"
| "store_SBOM_members ((key, v) # members) (sbom, backing, saved) =
     (if equalFold ''modules'' key then
        (case v of
           JArray vs \<Rightarrow>
             (if vs = [] then store_SBOM_members members (sbom\<lparr>Modules := []\<rparr>, [], saved)
              else case store_elements vs 0 backing saved of
                     (backing', saved') \<Rightarrow>
                       store_SBOM_members members
                         (sbom\<lparr>Modules := take (length vs) backing'\<rparr>, backing', saved'))
         | JNull \<Rightarrow> store_SBOM_members members (sbom\<lparr>Modules := []\<rparr>, [], saved)
         | _ \<Rightarrow>
             store_SBOM_members members
               (sbom, backing,
                saveError (UnmarshalTypeError (json_kind v) ''[]main.ModuleInfo'') saved))
      else store_SBOM_members members (sbom, backing, saved))"

text \<open>
  \<^verbatim>\<open>json.Unmarshal(data, &result)\<close>: the error, if any, and the struct after the call.
  The capacity of the slice that \<open>result\<close> holds at the call is taken to be its length.
\<close>

definition json_Unmarshal :: "string \<Rightarrow> SBOM \<Rightarrow> json_error option \<times> SBOM" where
  "json_Unmarshal data result =
     (case json_parse data of
        None \<Rightarrow> (Some SyntaxError, result)
      | Some v \<Rightarrow>
          (case v of
             JObject members \<Rightarrow>
               (case store_SBOM_members members (result, Modules result, None) of
                  (sbom, backing, saved) \<Rightarrow> (saved, sbom))
           | JNull \<Rightarrow> (None, result)
           | _ \<Rightarrow> (Some (UnmarshalTypeError (json_kind v) ''main.SBOM''), result)))"

subsection \<open>The configuration of the round trip\<close>

text \<open>
  A run on the two module calls of the test SBOM, with no explicit version and no
  diagnostics, that visits \<open>aws_vpc\<close> first.
\<close>

definition roundtrip_loader :: "string \<Rightarrow> Module \<times> Diagnostics" where
  "roundtrip_loader configPath =
     (\<lparr>ModuleCalls =
         [\<lparr>mc_Name = ''aws_vpc'',
           mc_Source = ''git::https://github.com/terraform-aws-modules/vpc.git?ref=v2.0.0'',
           mc_Version = ''''\<rparr>,
          \<lparr>mc_Name = ''s3_bucket'', mc_Source = ''hashicorp/aws'', mc_Version = ''''\<rparr>]\<rparr>,
      [])"

section \<open>Facts about the string functions\<close>

text \<open>
  \<open>strings_Index\<close> finds the first instance: the separator is a prefix of the string at
  the index returned, and at no smaller index.
\<close>

lemma Index_first:
  "strings_Index s sep = Some m \<Longrightarrow>
     strings_HasPrefix (drop m s) sep \<and> (\<forall>i<m. \<not> strings_HasPrefix (drop i s) sep)"
proof (induction s arbitrary: m)
  case Nil
  then show ?case by (auto simp: strings_HasPrefix_def split: if_splits)
next
  case (Cons c s)
  show ?case
  proof (cases "strings_HasPrefix (c # s) sep")
    case True
    with Cons.prems show ?thesis by simp
  next
    case False
    with Cons.prems obtain k where k: "strings_Index s sep = Some k" "m = Suc k"
      by auto
    from Cons.IH[OF k(1)] False k(2) show ?thesis
      by (auto simp: less_Suc_eq_0_disj)
  qed
qed

lemma Index_None:
  "strings_Index s sep = None \<Longrightarrow> \<not> strings_HasPrefix (drop i s) sep"
proof (induction s arbitrary: i)
  case Nil
  then show ?case by (auto simp: strings_HasPrefix_def split: if_splits)
next
  case (Cons c s)
  then show ?case by (cases i) (auto split: if_splits)
qed

lemma Index_zero_iff: "strings_Index s sep = Some 0 \<longleftrightarrow> strings_HasPrefix s sep"
  by (cases s) (auto simp: strings_HasPrefix_def)

lemma Count_Some:
  "sep \<noteq> [] \<Longrightarrow> strings_Index s sep = Some m \<Longrightarrow>
     strings_Count s sep = Suc (strings_Count (drop (m + length sep) s) sep)"
  by (subst strings_Count.simps) simp

lemma Count_None:
  "sep \<noteq> [] \<Longrightarrow> strings_Index s sep = None \<Longrightarrow> strings_Count s sep = 0"
  by (subst strings_Count.simps) simp

lemma Split_hd:
  "sep \<noteq> [] \<Longrightarrow> hd (strings_Split s sep) =
     (case strings_Index s sep of None \<Rightarrow> s | Some m \<Rightarrow> take m s)"
  by (auto simp: strings_Split_def Count_Some Count_None split: option.splits)

lemma Split_Some:
  "sep \<noteq> [] \<Longrightarrow> strings_Index s sep = Some m \<Longrightarrow>
     strings_Split s sep = take m s # strings_Split (drop (m + length sep) s) sep"
  by (simp add: strings_Split_def Count_Some)

lemma Split_None:
  "sep \<noteq> [] \<Longrightarrow> strings_Index s sep = None \<Longrightarrow> strings_Split s sep = [s]"
  by (simp add: strings_Split_def Count_None)

lemma Split_nonempty: "sep \<noteq> [] \<Longrightarrow> strings_Split s sep \<noteq> []"
  by (cases "strings_Index s sep") (auto simp: Split_Some Split_None)

text \<open>
  The separator \<open>?ref=\<close> cannot overlap itself (its first character occurs in it once), so
  when a prefix \<open>pre\<close> holds no instance, the first instance in \<open>pre @ ''?ref='' @ rest\<close>
  starts right after \<open>pre\<close>.
\<close>

lemma HasPrefix_ref_overlap:
  assumes "strings_HasPrefix (c # pre @ ''?ref='' @ rest) ''?ref=''"
  shows "strings_HasPrefix (c # pre) ''?ref=''"
proof -
  consider "pre = []" | a where "pre = [a]" | a b where "pre = [a, b]"
    | a b d where "pre = [a, b, d]" | a b d e p where "pre = a # b # d # e # p"
    by (metis list.exhaust)
  then show ?thesis
    using assms by cases (simp_all add: strings_HasPrefix_def)
qed

lemma Index_append_ref:
  "\<not> strings_Contains pre ''?ref='' \<Longrightarrow>
     strings_Index (pre @ ''?ref='' @ rest) ''?ref='' = Some (length pre)"
proof (induction pre)
  case Nil
  show ?case by (simp add: strings_HasPrefix_def)
next
  case (Cons c pre)
  from Cons.prems have np: "\<not> strings_HasPrefix (c # pre) ''?ref=''"
    and nc: "\<not> strings_Contains pre ''?ref=''"
    by (auto simp: strings_Contains_def split: if_splits)
  from np have "\<not> strings_HasPrefix (c # pre @ ''?ref='' @ rest) ''?ref=''"
    using HasPrefix_ref_overlap by blast
  with Cons.IH[OF nc] show ?case by simp
qed

section \<open>Version extraction\<close>

text \<open>
  With an empty version field and an instance of \<open>?ref=\<close> at index \<open>m\<close>, the result is
  the second piece of the split: what follows that instance, cut at the next instance.
\<close>

lemma extractVersion_ref_parts:
  assumes v: "mc_Version modCall = []"
    and i: "strings_Index (mc_Source modCall) ''?ref='' = Some m"
  shows "extractVersion modCall =
           (case strings_Index (drop (m + length ''?ref='') (mc_Source modCall)) ''?ref='' of
              None \<Rightarrow> drop (m + length ''?ref='') (mc_Source modCall)
            | Some k \<Rightarrow> take k (drop (m + length ''?ref='') (mc_Source modCall)))"
proof -
  let ?src = "mc_Source modCall"
  let ?rest = "drop (m + length ''?ref='') (mc_Source modCall)"
  have sp: "strings_Split ?src ''?ref='' = take m ?src # strings_Split ?rest ''?ref=''"
    by (rule Split_Some [OF _ i]) simp
  have ne: "strings_Split ?rest ''?ref='' \<noteq> []"
    by (rule Split_nonempty) simp
  have c: "strings_Contains ?src ''?ref=''"
    using i by (simp add: strings_Contains_def)
  have "extractVersion modCall = strings_Split ?src ''?ref='' ! 1"
    using v c ne unfolding extractVersion_def Let_def sp by simp
  also have "\<dots> = hd (strings_Split ?rest ''?ref='')"
    unfolding sp using ne by (simp add: hd_conv_nth)
  also have "\<dots> = (case strings_Index ?rest ''?ref='' of None \<Rightarrow> ?rest | Some k \<Rightarrow> take k ?rest)"
    by (rule Split_hd) simp
  finally show ?thesis .
qed

lemma extractVersion_cases:
  "mc_Version modCall \<noteq> [] \<and> extractVersion modCall = mc_Version modCall
   \<or> mc_Version modCall = [] \<and> strings_Contains (mc_Source modCall) ''?ref=''
       \<and> extractVersion modCall = strings_Split (mc_Source modCall) ''?ref='' ! 1
   \<or> extractVersion modCall = ''local''
   \<or> extractVersion modCall = ''N/A''"
proof (cases "strings_Index (mc_Source modCall) ''?ref=''")
  case None
  then show ?thesis
    by (simp add: extractVersion_def Let_def strings_Contains_def)
next
  case (Some m)
  have "strings_Split (mc_Source modCall) ''?ref='' =
          take m (mc_Source modCall)
            # strings_Split (drop (m + length ''?ref='') (mc_Source modCall)) ''?ref=''"
    by (rule Split_Some [OF _ Some]) simp
  moreover have "strings_Split (drop (m + length ''?ref='') (mc_Source modCall)) ''?ref='' \<noteq> []"
    by (rule Split_nonempty) simp
  ultimately have "length (strings_Split (mc_Source modCall) ''?ref='') > 1"
    by simp
  with Some show ?thesis
    by (simp add: extractVersion_def Let_def strings_Contains_def)
qed

text \<open>
  C7. For every module call with a non-empty explicit version field, \<open>extractVersion\<close>
  returns that version string unchanged, whatever the source string is.
\<close>

theorem extractVersion_explicit:
  "mc_Version modCall \<noteq> [] \<Longrightarrow> extractVersion modCall = mc_Version modCall"
  by (simp add: extractVersion_def)

theorem extractVersion_explicit_witness:
  "mc_Version \<lparr>mc_Name = ''vpc'', mc_Source = ''git::https://example.com/vpc.git?ref=v2.0.0'',
       mc_Version = ''1.2.0''\<rparr> \<noteq> []
   \<and> extractVersion \<lparr>mc_Name = ''vpc'',
       mc_Source = ''git::https://example.com/vpc.git?ref=v2.0.0'', mc_Version = ''1.2.0''\<rparr>
     = ''1.2.0''"
  using extractVersion_explicit [of "\<lparr>mc_Name = ''vpc'',
       mc_Source = ''git::https://example.com/vpc.git?ref=v2.0.0'', mc_Version = ''1.2.0''\<rparr>"]
  by simp

text \<open>
  C8. For every module call with no explicit version and no \<open>?ref=\<close> in the source:
  if the source starts with \<open>./\<close> or \<open>../\<close> the result is \<open>local\<close>, and for every other
  such source it is \<open>N/A\<close>.
\<close>

theorem extractVersion_no_ref:
  assumes "mc_Version modCall = []"
    and "\<not> strings_Contains (mc_Source modCall) ''?ref=''"
  shows "extractVersion modCall =
           (if strings_HasPrefix (mc_Source modCall) ''./''
               \<or> strings_HasPrefix (mc_Source modCall) ''../''
            then ''local'' else ''N/A'')"
  using assms by (simp add: extractVersion_def Let_def)

theorem extractVersion_no_ref_witness:
  "\<not> strings_Contains ''./modules/net'' ''?ref=''
   \<and> extractVersion \<lparr>mc_Name = ''net'', mc_Source = ''./modules/net'', mc_Version = ''''\<rparr> = ''local''
   \<and> \<not> strings_Contains ''../shared'' ''?ref=''
   \<and> extractVersion \<lparr>mc_Name = ''shared'', mc_Source = ''../shared'', mc_Version = ''''\<rparr> = ''local''
   \<and> \<not> strings_Contains ''hashicorp/aws'' ''?ref=''
   \<and> extractVersion \<lparr>mc_Name = ''s3_bucket'', mc_Source = ''hashicorp/aws'', mc_Version = ''''\<rparr> = ''N/A''"
proof -
  have c1: "\<not> strings_Contains ''./modules/net'' ''?ref=''" by code_simp
  have c2: "\<not> strings_Contains ''../shared'' ''?ref=''" by code_simp
  have c3: "\<not> strings_Contains ''hashicorp/aws'' ''?ref=''" by code_simp
  show ?thesis
    using c1 c2 c3
      extractVersion_no_ref [of "\<lparr>mc_Name = ''net'', mc_Source = ''./modules/net'', mc_Version = ''''\<rparr>"]
      extractVersion_no_ref [of "\<lparr>mc_Name = ''shared'', mc_Source = ''../shared'', mc_Version = ''''\<rparr>"]
      extractVersion_no_ref [of "\<lparr>mc_Name = ''s3_bucket'', mc_Source = ''hashicorp/aws'', mc_Version = ''''\<rparr>"]
    by (simp add: strings_HasPrefix_def)
qed

text \<open>
  C1, as the code has it. \<^verbatim>\<open>strings.Split\<close> cuts at every instance of \<open>?ref=\<close> and the
  code returns \<^verbatim>\<open>parts[1]\<close>: for a module call with an empty version field whose source
  is \<open>pre @ ''?ref='' @ rest\<close>, the instance after \<open>pre\<close> being the first one,
  \<open>extractVersion\<close> returns \<open>rest\<close> when \<open>rest\<close> holds no further \<open>?ref=\<close>, and otherwise
  the part of \<open>rest\<close> before its first \<open>?ref=\<close>.
\<close>

theorem extractVersion_ref:
  assumes "mc_Version modCall = []"
    and "mc_Source modCall = pre @ ''?ref='' @ rest"
    and "\<not> strings_Contains pre ''?ref=''"
  shows "extractVersion modCall =
           (case strings_Index rest ''?ref='' of None \<Rightarrow> rest | Some k \<Rightarrow> take k rest)"
proof -
  have "strings_Index (mc_Source modCall) ''?ref='' = Some (length pre)"
    unfolding assms(2) by (rule Index_append_ref [OF assms(3)])
  from extractVersion_ref_parts [OF assms(1) this]
  have "extractVersion modCall =
          (case strings_Index (drop (length pre + length ''?ref='') (pre @ ''?ref='' @ rest))
                  ''?ref='' of
             None \<Rightarrow> drop (length pre + length ''?ref='') (pre @ ''?ref='' @ rest)
           | Some k \<Rightarrow> take k (drop (length pre + length ''?ref='') (pre @ ''?ref='' @ rest)))"
    unfolding assms(2) .
  moreover have "drop (length pre + length ''?ref='') (pre @ ''?ref='' @ rest) = rest"
    by simp
  ultimately show ?thesis by (simp only:)
qed

theorem extractVersion_ref_witness:
  "\<not> strings_Contains ''git::https://github.com/terraform-aws-modules/vpc.git'' ''?ref=''
   \<and> extractVersion \<lparr>mc_Name = ''aws_vpc'',
        mc_Source = ''git::https://github.com/terraform-aws-modules/vpc.git?ref=v2.0.0'',
        mc_Version = ''''\<rparr> = ''v2.0.0''
   \<and> \<not> strings_Contains ''a'' ''?ref=''
   \<and> extractVersion \<lparr>mc_Name = ''m'', mc_Source = ''a?ref=b?ref=c'', mc_Version = ''''\<rparr> = ''b''"
proof -
  have c1: "\<not> strings_Contains ''git::https://github.com/terraform-aws-modules/vpc.git'' ''?ref=''"
    by code_simp
  have i1: "strings_Index ''v2.0.0'' ''?ref='' = None"
    by code_simp
  have c2: "\<not> strings_Contains ''a'' ''?ref=''"
    by code_simp
  have i2: "strings_Index ''b?ref=c'' ''?ref='' = Some 1"
    by code_simp
  have "extractVersion \<lparr>mc_Name = ''aws_vpc'',
        mc_Source = ''git::https://github.com/terraform-aws-modules/vpc.git?ref=v2.0.0'',
        mc_Version = ''''\<rparr> = ''v2.0.0''"
    using extractVersion_ref [of _ "''git::https://github.com/terraform-aws-modules/vpc.git''"
        "''v2.0.0''", OF _ _ c1] i1
    by simp
  moreover have "extractVersion \<lparr>mc_Name = ''m'', mc_Source = ''a?ref=b?ref=c'',
        mc_Version = ''''\<rparr> = ''b''"
    using extractVersion_ref [of _ "''a''" "''b?ref=c''", OF _ _ c2] i2
    by simp
  ultimately show ?thesis using c1 c2 by simp
qed

text \<open>
  C1 as stated (the result is everything after the first \<open>?ref=\<close>, later instances
  included) fails on the source \<open>a?ref=b?ref=c\<close>: what follows the first instance is
  \<open>b?ref=c\<close>, and the code returns \<open>b\<close>.
\<close>

theorem extractVersion_ref_counterexample:
  "mc_Version \<lparr>mc_Name = ''m'', mc_Source = ''a?ref=b?ref=c'', mc_Version = ''''\<rparr> = []
   \<and> strings_Contains ''a?ref=b?ref=c'' ''?ref=''
   \<and> strings_Index ''a?ref=b?ref=c'' ''?ref='' = Some 1
   \<and> drop (1 + length ''?ref='') ''a?ref=b?ref=c'' = ''b?ref=c''
   \<and> extractVersion \<lparr>mc_Name = ''m'', mc_Source = ''a?ref=b?ref=c'', mc_Version = ''''\<rparr> = ''b''
   \<and> extractVersion \<lparr>mc_Name = ''m'', mc_Source = ''a?ref=b?ref=c'', mc_Version = ''''\<rparr> \<noteq> ''b?ref=c''"
  by code_simp

text \<open>
  C2, as the code has it. There is no fall-through for an empty ref: \<open>extractVersion\<close>
  returns the empty string exactly when the version field is empty and the first \<open>?ref=\<close>
  of the source is followed at once by the end of the source or by another \<open>?ref=\<close>.
  In every case the result is the non-empty explicit version, or the second piece of the
  split of a source that contains \<open>?ref=\<close>, or \<open>local\<close>, or \<open>N/A\<close>.
\<close>

theorem extractVersion_empty_iff:
  "(extractVersion modCall = [] \<longleftrightarrow>
      mc_Version modCall = []
      \<and> (\<exists>m. strings_Index (mc_Source modCall) ''?ref='' = Some m
             \<and> (drop (m + length ''?ref='') (mc_Source modCall) = []
                  \<or> strings_HasPrefix (drop (m + length ''?ref='') (mc_Source modCall)) ''?ref='')))
   \<and> (mc_Version modCall \<noteq> [] \<and> extractVersion modCall = mc_Version modCall
       \<or> mc_Version modCall = [] \<and> strings_Contains (mc_Source modCall) ''?ref=''
           \<and> extractVersion modCall = strings_Split (mc_Source modCall) ''?ref='' ! 1
       \<or> extractVersion modCall = ''local''
       \<or> extractVersion modCall = ''N/A'')"
proof (rule conjI)
  show "extractVersion modCall = [] \<longleftrightarrow>
      mc_Version modCall = []
      \<and> (\<exists>m. strings_Index (mc_Source modCall) ''?ref='' = Some m
             \<and> (drop (m + length ''?ref='') (mc_Source modCall) = []
                  \<or> strings_HasPrefix (drop (m + length ''?ref='') (mc_Source modCall)) ''?ref=''))"
  proof (cases "mc_Version modCall = []")
    case False
    then show ?thesis by (simp add: extractVersion_def)
  next
    case v: True
    show ?thesis
    proof (cases "strings_Index (mc_Source modCall) ''?ref=''")
      case None
      then show ?thesis
        using v by (simp add: extractVersion_def Let_def strings_Contains_def)
    next
      case (Some m)
      let ?rest = "drop (m + length ''?ref='') (mc_Source modCall)"
      have e: "extractVersion modCall =
                 (case strings_Index ?rest ''?ref='' of None \<Rightarrow> ?rest | Some k \<Rightarrow> take k ?rest)"
        by (rule extractVersion_ref_parts [OF v Some])
      have "extractVersion modCall = [] \<longleftrightarrow> ?rest = [] \<or> strings_HasPrefix ?rest ''?ref=''"
      proof (cases "strings_Index ?rest ''?ref=''")
        case None
        then have "\<not> strings_HasPrefix ?rest ''?ref=''"
          using Index_zero_iff [of ?rest "''?ref=''"] by simp
        with None e show ?thesis by simp
      next
        case (Some k)
        then have ne: "?rest \<noteq> []"
          by (rule Index_Some_nonempty) simp
        have "k = 0 \<longleftrightarrow> strings_HasPrefix ?rest ''?ref=''"
          using Some Index_zero_iff [of ?rest "''?ref=''"] by auto
        with Some e ne show ?thesis by simp
      qed
      then show ?thesis using v Some by simp
    qed
  qed
qed (rule extractVersion_cases)

theorem extractVersion_empty_iff_witness:
  "extractVersion \<lparr>mc_Name = ''m'', mc_Source = ''x?ref='', mc_Version = ''''\<rparr> = []
   \<and> strings_Index ''x?ref='' ''?ref='' = Some 1
   \<and> drop (1 + length ''?ref='') ''x?ref='' = []
   \<and> extractVersion \<lparr>mc_Name = ''m'', mc_Source = ''hashicorp/aws'', mc_Version = ''''\<rparr> \<noteq> []"
proof -
  have i: "strings_Index ''x?ref='' ''?ref='' = Some 1"
    by code_simp
  have n: "strings_Index ''hashicorp/aws'' ''?ref='' = None"
    by code_simp
  show ?thesis
    using i n
      extractVersion_empty_iff [of "\<lparr>mc_Name = ''m'', mc_Source = ''x?ref='', mc_Version = ''''\<rparr>"]
      extractVersion_empty_iff [of "\<lparr>mc_Name = ''m'', mc_Source = ''hashicorp/aws'', mc_Version = ''''\<rparr>"]
    by simp
qed

text \<open>
  C2 as stated (the result is never empty) fails on the source \<open>x?ref=\<close> with an empty
  version field: the code returns the empty string.
\<close>

theorem extractVersion_empty_counterexample:
  "strings_Contains ''x?ref='' ''?ref=''
   \<and> extractVersion \<lparr>mc_Name = ''m'', mc_Source = ''x?ref='', mc_Version = ''''\<rparr> = []"
  by code_simp

section \<open>Building the SBOM\<close>

text \<open>
  The loop appends one record per module call, in the order of the calls.
\<close>

lemma generateSBOM_loop_Modules:
  "Modules (generateSBOM_loop configPath calls sbom) =
     Modules sbom @
     map (\<lambda>modCall. \<lparr>Name = mc_Name modCall, Source = mc_Source modCall,
                       Version = extractVersion modCall, Config = configPath\<rparr>) calls"
  by (induction calls arbitrary: sbom) (simp_all add: Let_def)

lemma example_run: "generateSBOM example_loader ''cfg'' = Inr example_sbom"
  by code_simp

text \<open>
  C6. On success, \<open>generateSBOM\<close> produces one record per module call returned by the
  loader, with the call's name and source copied, the \<open>Config\<close> field equal to the
  \<open>configPath\<close> argument, and the version equal to \<open>extractVersion\<close> of the call.
\<close>

theorem generateSBOM_records:
  assumes "generateSBOM LoadModule configPath = Inr sbom"
  shows "Modules sbom =
           map (\<lambda>modCall. \<lparr>Name = mc_Name modCall, Source = mc_Source modCall,
                             Version = extractVersion modCall, Config = configPath\<rparr>)
             (ModuleCalls (fst (LoadModule configPath)))"
  using assms
  by (auto simp: generateSBOM_def generateSBOM_loop_Modules split: prod.splits if_splits)

theorem generateSBOM_records_witness:
  "generateSBOM example_loader ''cfg'' = Inr example_sbom
   \<and> ModuleCalls (fst (example_loader ''cfg'')) = example_calls
   \<and> Modules example_sbom =
       map (\<lambda>modCall. \<lparr>Name = mc_Name modCall, Source = mc_Source modCall,
                         Version = extractVersion modCall, Config = ''cfg''\<rparr>) example_calls"
  using example_run generateSBOM_records [OF example_run]
  by (simp add: example_loader_def)

text \<open>
  C5. \<open>generateSBOM\<close> fails with the load error that wraps the loader's diagnostics
  whenever the diagnostics hold an error, and then returns no SBOM at all (also when the
  loader has read some module calls); it succeeds exactly when the diagnostics hold no
  error.
\<close>

theorem generateSBOM_error:
  "(HasErrors (snd (LoadModule configPath)) \<longrightarrow>
      generateSBOM LoadModule configPath = Inl (LoadError (snd (LoadModule configPath))))
   \<and> (\<not> HasErrors (snd (LoadModule configPath)) \<longrightarrow>
      (\<exists>sbom. generateSBOM LoadModule configPath = Inr sbom))
   \<and> (isl (generateSBOM LoadModule configPath) \<longleftrightarrow> HasErrors (snd (LoadModule configPath)))"
  by (auto simp: generateSBOM_def split: prod.splits)

theorem generateSBOM_error_witness:
  "HasErrors (snd (example_loader ''missing''))
   \<and> ModuleCalls (fst (example_loader ''missing'')) \<noteq> []
   \<and> generateSBOM example_loader ''missing'' = Inl (LoadError (snd (example_loader ''missing'')))
   \<and> \<not> HasErrors (snd (example_loader ''cfg''))
   \<and> \<not> isl (generateSBOM example_loader ''cfg'')"
  using generateSBOM_error [of example_loader "''missing''"]
    generateSBOM_error [of example_loader "''cfg''"]
  by (simp add: example_loader_def example_calls_def)

text \<open>
  The values that two orders of one map visit are the same, each once, and as many as the
  map has keys.
\<close>

lemma generateSBOM_loop_eq:
  "generateSBOM_loop configPath calls \<lparr>Modules = []\<rparr> =
     \<lparr>Modules = map (\<lambda>modCall. \<lparr>Name = mc_Name modCall, Source = mc_Source modCall,
                       Version = extractVersion modCall, Config = configPath\<rparr>) calls\<rparr>"
  using generateSBOM_loop_Modules [of configPath calls "\<lparr>Modules = []\<rparr>"]
  by (cases "generateSBOM_loop configPath calls \<lparr>Modules = []\<rparr>") simp

lemma range_values_mset:
  assumes "range_order m keys" and "range_order m keys'"
  shows "mset (range_values m keys) = mset (range_values m keys')"
proof -
  from assms have "mset keys = mset keys'"
    by (simp add: range_order_def set_eq_iff_mset_eq_distinct [symmetric])
  then show ?thesis
    by (simp add: range_values_def map_filter_def)
qed

lemma range_values_length:
  assumes "range_order m keys"
  shows "length (range_values m keys) = card (dom m)"
proof -
  from assms have "filter (\<lambda>k. m k \<noteq> None) keys = keys"
    by (auto simp: range_order_def filter_id_conv)
  then have "length (range_values m keys) = length keys"
    by (simp add: range_values_def map_filter_def)
  also from assms have "\<dots> = card (dom m)"
    by (auto simp: range_order_def dest: distinct_card)
  finally show ?thesis .
qed

lemma mock_orders:
  "range_order mock_calls [''aws_vpc'', ''s3_bucket'']"
  "range_order mock_calls [''s3_bucket'', ''aws_vpc'']"
  by (auto simp: range_order_def mock_calls_def)

lemma mock_runs:
  "generateSBOM (run_loader mock_calls [] [''aws_vpc'', ''s3_bucket'']) ''/path/to/config''
     = Inr mockSBOM"
  "generateSBOM (run_loader mock_calls [] [''s3_bucket'', ''aws_vpc'']) ''/path/to/config''
     = Inr mockSBOM_reversed"
  by code_simp+

text \<open>
  C3, as the code has it. \<open>generateSBOM\<close> does not sort, regroup or remove: a run on a
  module without errors returns one record per module call, in the order in which its
  loop visits the map of the calls. That order is not fixed by the loader's result: two
  runs on the same map, visiting it in the orders \<open>keys\<close> and \<open>keys'\<close>, return the same
  records, each as often, as many as the map has calls, but each run in its own order.
\<close>

theorem generateSBOM_order:
  assumes "range_order m keys" and "range_order m keys'" and "\<not> HasErrors diag"
  shows "generateSBOM (run_loader m diag keys) configPath =
           Inr \<lparr>Modules =
                  map (\<lambda>modCall. \<lparr>Name = mc_Name modCall, Source = mc_Source modCall,
                                    Version = extractVersion modCall, Config = configPath\<rparr>)
                    (range_values m keys)\<rparr>
       \<and> generateSBOM (run_loader m diag keys') configPath =
           Inr \<lparr>Modules =
                  map (\<lambda>modCall. \<lparr>Name = mc_Name modCall, Source = mc_Source modCall,
                                    Version = extractVersion modCall, Config = configPath\<rparr>)
                    (range_values m keys')\<rparr>
       \<and> mset (map (\<lambda>modCall. \<lparr>Name = mc_Name modCall, Source = mc_Source modCall,
                                 Version = extractVersion modCall, Config = configPath\<rparr>)
                 (range_values m keys))
         = mset (map (\<lambda>modCall. \<lparr>Name = mc_Name modCall, Source = mc_Source modCall,
                                   Version = extractVersion modCall, Config = configPath\<rparr>)
                   (range_values m keys'))
       \<and> length (range_values m keys) = card (dom m)"
proof (intro conjI)
  show "generateSBOM (run_loader m diag keys) configPath =
           Inr \<lparr>Modules =
                  map (\<lambda>modCall. \<lparr>Name = mc_Name modCall, Source = mc_Source modCall,
                                    Version = extractVersion modCall, Config = configPath\<rparr>)
                    (range_values m keys)\<rparr>"
    using assms(3) by (simp add: generateSBOM_def run_loader_def generateSBOM_loop_eq)
  show "generateSBOM (run_loader m diag keys') configPath =
           Inr \<lparr>Modules =
                  map (\<lambda>modCall. \<lparr>Name = mc_Name modCall, Source = mc_Source modCall,
                                    Version = extractVersion modCall, Config = configPath\<rparr>)
                    (range_values m keys')\<rparr>"
    using assms(3) by (simp add: generateSBOM_def run_loader_def generateSBOM_loop_eq)
  show "mset (map (\<lambda>modCall. \<lparr>Name = mc_Name modCall, Source = mc_Source modCall,
                                 Version = extractVersion modCall, Config = configPath\<rparr>)
                 (range_values m keys))
         = mset (map (\<lambda>modCall. \<lparr>Name = mc_Name modCall, Source = mc_Source modCall,
                                   Version = extractVersion modCall, Config = configPath\<rparr>)
                   (range_values m keys'))"
    using range_values_mset [OF assms(1,2)] by simp
  show "length (range_values m keys) = card (dom m)"
    by (rule range_values_length [OF assms(1)])
qed

theorem generateSBOM_order_witness:
  "range_order mock_calls [''aws_vpc'', ''s3_bucket'']
   \<and> range_order mock_calls [''s3_bucket'', ''aws_vpc'']
   \<and> \<not> HasErrors []
   \<and> generateSBOM (run_loader mock_calls [] [''aws_vpc'', ''s3_bucket'']) ''/path/to/config''
       = Inr mockSBOM
   \<and> generateSBOM (run_loader mock_calls [] [''s3_bucket'', ''aws_vpc'']) ''/path/to/config''
       = Inr mockSBOM_reversed
   \<and> mset (Modules mockSBOM) = mset (Modules mockSBOM_reversed)
   \<and> length (Modules mockSBOM) = card (dom mock_calls)"
proof -
  have h: "\<not> HasErrors []" by simp
  note o = generateSBOM_order [OF mock_orders h, of "''/path/to/config''"]
  from o [THEN conjunct1]
  have "mockSBOM =
          \<lparr>Modules =
             map (\<lambda>modCall. \<lparr>Name = mc_Name modCall, Source = mc_Source modCall,
                               Version = extractVersion modCall, Config = ''/path/to/config''\<rparr>)
               (range_values mock_calls [''aws_vpc'', ''s3_bucket''])\<rparr>"
    unfolding mock_runs(1) by (simp only: sum.inject)
  from arg_cong [OF this, of Modules] have a: "Modules mockSBOM =
             map (\<lambda>modCall. \<lparr>Name = mc_Name modCall, Source = mc_Source modCall,
                               Version = extractVersion modCall, Config = ''/path/to/config''\<rparr>)
               (range_values mock_calls [''aws_vpc'', ''s3_bucket''])"
    by (simp only: SBOM.select_convs)
  from o [THEN conjunct2, THEN conjunct1]
  have "mockSBOM_reversed =
          \<lparr>Modules =
             map (\<lambda>modCall. \<lparr>Name = mc_Name modCall, Source = mc_Source modCall,
                               Version = extractVersion modCall, Config = ''/path/to/config''\<rparr>)
               (range_values mock_calls [''s3_bucket'', ''aws_vpc''])\<rparr>"
    unfolding mock_runs(2) by (simp only: sum.inject)
  from arg_cong [OF this, of Modules] have b: "Modules mockSBOM_reversed =
             map (\<lambda>modCall. \<lparr>Name = mc_Name modCall, Source = mc_Source modCall,
                               Version = extractVersion modCall, Config = ''/path/to/config''\<rparr>)
               (range_values mock_calls [''s3_bucket'', ''aws_vpc''])"
    by (simp only: SBOM.select_convs)
  from o [THEN conjunct2, THEN conjunct2, THEN conjunct1]
  have c: "mset (Modules mockSBOM) = mset (Modules mockSBOM_reversed)"
    unfolding a b .
  from o [THEN conjunct2, THEN conjunct2, THEN conjunct2]
  have d: "length (Modules mockSBOM) = card (dom mock_calls)"
    unfolding a by simp
  show ?thesis
    using mock_orders mock_runs c d by simp
qed

text \<open>
  C3 as stated (two runs on the same result of the loader return the records in the same
  order) fails on the map of the two calls \<open>aws_vpc\<close> and \<open>s3_bucket\<close>: a run that visits
  \<open>aws_vpc\<close> first and a run that visits \<open>s3_bucket\<close> first return different SBOMs.
\<close>

theorem generateSBOM_order_counterexample:
  "range_order mock_calls [''aws_vpc'', ''s3_bucket'']
   \<and> range_order mock_calls [''s3_bucket'', ''aws_vpc'']
   \<and> generateSBOM (run_loader mock_calls [] [''aws_vpc'', ''s3_bucket'']) ''/path/to/config''
       = Inr mockSBOM
   \<and> generateSBOM (run_loader mock_calls [] [''s3_bucket'', ''aws_vpc'']) ''/path/to/config''
       = Inr mockSBOM_reversed
   \<and> map Name (Modules mockSBOM) = [''aws_vpc'', ''s3_bucket'']
   \<and> map Name (Modules mockSBOM_reversed) = [''s3_bucket'', ''aws_vpc'']
   \<and> mockSBOM \<noteq> mockSBOM_reversed"
  using mock_orders mock_runs by (simp add: mockSBOM_def mockSBOM_reversed_def)

section \<open>Writing the CSV file\<close>














section \<open>Writing the JSON and XML files\<close>

text \<open>
  \<open>os.Create\<close> truncates: when it succeeds, the file holds the encoding of the SBOM and
  nothing of what it held before; when it fails, the emitter returns the error.
\<close>

lemma writeSBOMToJSON_ok:
  "open_error fs outputPath = None \<Longrightarrow>
     writeSBOMToJSON sbom outputPath fs =
       Inr (fs\<lparr>nodes := (nodes fs)(outputPath \<mapsto> File (json_Encode sbom))\<rparr>)"
  by (simp add: writeSBOMToJSON_def os_Create_def file_Write_def)






section \<open>The round trip through JSON\<close>

lemma roundtrip_build: "generateSBOM roundtrip_loader ''/path/to/config'' = Inr mockSBOM"
  by code_simp

lemma roundtrip_parse: "json_Unmarshal (json_Encode mockSBOM) \<lparr>Modules = []\<rparr> = (None, mockSBOM)"
  by code_simp

text \<open>
  C10. The SBOM built from the module calls \<open>aws_vpc\<close> (source
  \<open>git::https://github.com/terraform-aws-modules/vpc.git?ref=v2.0.0\<close>) and \<open>s3_bucket\<close>
  (source \<open>hashicorp/aws\<close>), both without an explicit version, at the path
  \<open>/path/to/config\<close>, is the SBOM of the tests; the JSON emitter writes its encoding to
  the file; and reading that text back with \<open>Unmarshal\<close> into an empty SBOM gives no
  error and the same records, whose versions are \<open>v2.0.0\<close> and \<open>N/A\<close>.
\<close>

theorem json_roundtrip:
  "generateSBOM roundtrip_loader ''/path/to/config'' = Inr mockSBOM
   \<and> writeSBOMToJSON mockSBOM ''sbom.json'' fs_empty
       = Inr (fs_empty\<lparr>nodes := [''sbom.json'' \<mapsto> File (json_Encode mockSBOM)]\<rparr>)
   \<and> json_Unmarshal (json_Encode mockSBOM) \<lparr>Modules = []\<rparr> = (None, mockSBOM)
   \<and> map Version (Modules mockSBOM) = [''v2.0.0'', ''N/A'']"
proof (intro conjI)
  show "generateSBOM roundtrip_loader ''/path/to/config'' = Inr mockSBOM"
    by (rule roundtrip_build)
  have "open_error fs_empty ''sbom.json'' = None"
    by (simp add: open_error_def fs_empty_def)
  from writeSBOMToJSON_ok [OF this, of mockSBOM]
  show "writeSBOMToJSON mockSBOM ''sbom.json'' fs_empty
          = Inr (fs_empty\<lparr>nodes := [''sbom.json'' \<mapsto> File (json_Encode mockSBOM)]\<rparr>)"
    by (simp add: fs_empty_def)
  show "json_Unmarshal (json_Encode mockSBOM) \<lparr>Modules = []\<rparr> = (None, mockSBOM)"
    by (rule roundtrip_parse)
  show "map Version (Modules mockSBOM) = [''v2.0.0'', ''N/A'']"
    by (simp add: mockSBOM_def)
qed

end
